theory Spec2Isabelle
  imports Complex_Main
begin

section \<open>Numbers\<close>

text \<open>
  The component \<^verbatim>\<open>BezierPhysicsSimulation\<close> of \<^verbatim>\<open>beizure.js\<close> computes with JavaScript
  numbers. They are modelled as real numbers: \<open>+\<close>, \<open>-\<close>, \<open>*\<close> and \<open>Math.min\<close> are the
  exact operations, and a decimal literal of the source such as \<open>0.15\<close> or \<open>16.67\<close> is
  the rational number it denotes. Rounding to binary64 and overflow are outside the
  model, so the theorems state what does not depend on rounding: what each function
  computes from what, which branch is taken, the derivative of the curve as a
  polynomial in \<open>t\<close>, and values that binary64 represents exactly. The long-run values of
  the iterated spring step and exact sums of products with \<open>0.3\<close>, \<open>0.4\<close>, \<open>0.6\<close> or
  \<open>0.7\<close> depend on rounding and are not stated.

  Two operations of JavaScript can return a value that is no number of the model: a
  division by zero (NaN or an infinity) and the square root of a negative number (NaN).
  Where the divisor or the radicand is not a non-zero constant they are the partial
  operations \<open>js_divide\<close> and \<open>js_sqrt\<close>, with \<open>None\<close> for such a result, so that the total
  division of the logic (where \<open>a / 0 = 0\<close>) never stands for a division by zero of the
  source. The divisions by the constants \<open>2\<close>, \<open>90\<close> and \<open>16.67\<close> are written \<open>/\<close>.
\<close>

type_synonym number = real

definition js_divide :: "number \<Rightarrow> number \<Rightarrow> number option" where
  "js_divide a b = (if b = 0 then None else Some (a / b))"

definition js_sqrt :: "number \<Rightarrow> number option" where
  "js_sqrt a = (if a < 0 then None else Some (sqrt a))"

section \<open>Math module\<close>

text \<open>
  \<^verbatim>\<open>class Vector2 { constructor(x = 0, y = 0) { this.x = x; this.y = y; } ... }\<close>
  A vector is a value with the two fields \<open>x\<close> and \<open>y\<close>; every method returns a new
  vector or a number and none throws. \<open>add\<close>, \<open>subtract\<close> and \<open>multiply\<close> use \<open>+\<close>, \<open>-\<close>
  and \<open>*\<close> only; \<open>length\<close> takes a square root and \<open>normalize\<close> divides, so their results
  are optional.
\<close>

datatype Vector2 = Vector2 (x: number) (y: number)

definition Vector2_add :: "Vector2 \<Rightarrow> Vector2 \<Rightarrow> Vector2" where
  "Vector2_add this v = Vector2 (x this + x v) (y this + y v)"

definition Vector2_subtract :: "Vector2 \<Rightarrow> Vector2 \<Rightarrow> Vector2" where
  "Vector2_subtract this v = Vector2 (x this - x v) (y this - y v)"

definition Vector2_multiply :: "Vector2 \<Rightarrow> number \<Rightarrow> Vector2" where
  "Vector2_multiply this scalar = Vector2 (x this * scalar) (y this * scalar)"

definition Vector2_length :: "Vector2 \<Rightarrow> number option" where
  "Vector2_length this = js_sqrt (x this * x this + y this * y this)"

text \<open>
  \<^verbatim>\<open>normalize() { const len = this.length();
                 if (len === 0) return new Vector2(0, 0);
                 return new Vector2(this.x / len, this.y / len); }\<close>
  A length that is NaN is not \<open>=== 0\<close>, and dividing by it gives NaN components.
\<close>

definition Vector2_normalize :: "Vector2 \<Rightarrow> Vector2 option" where
  "Vector2_normalize this =
     (case Vector2_length this of
        None \<Rightarrow> None
      | Some len \<Rightarrow>
          if len = 0 then Some (Vector2 0 0)
          else (case js_divide (x this) len of
                  None \<Rightarrow> None
                | Some nx \<Rightarrow>
                    (case js_divide (y this) len of
                       None \<Rightarrow> None
                     | Some ny \<Rightarrow> Some (Vector2 nx ny))))"

text \<open>Cubic Bezier curve computation (\<^verbatim>\<open>bezierPoint\<close>, lines 56 to 67).\<close>

definition bezierPoint :: "number \<Rightarrow> Vector2 \<Rightarrow> Vector2 \<Rightarrow> Vector2 \<Rightarrow> Vector2 \<Rightarrow> Vector2" where
  "bezierPoint t p0 p1 p2 p3 =
     (let t1 = 1 - t;
          t1_2 = t1 * t1;
          t1_3 = t1_2 * t1;
          t_2 = t * t;
          t_3 = t_2 * t;
          cx = t1_3 * x p0 + 3 * t1_2 * t * x p1 + 3 * t1 * t_2 * x p2 + t_3 * x p3;
          cy = t1_3 * y p0 + 3 * t1_2 * t * y p1 + 3 * t1 * t_2 * y p2 + t_3 * y p3
      in Vector2 cx cy)"

text \<open>Tangent vector computation (\<^verbatim>\<open>bezierTangent\<close>, lines 70 to 79).\<close>

definition bezierTangent :: "number \<Rightarrow> Vector2 \<Rightarrow> Vector2 \<Rightarrow> Vector2 \<Rightarrow> Vector2 \<Rightarrow> Vector2" where
  "bezierTangent t p0 p1 p2 p3 =
     (let t1 = 1 - t;
          t1_2 = t1 * t1;
          t_2 = t * t;
          dx = 3 * t1_2 * (x p1 - x p0) + 6 * t1 * t * (x p2 - x p1) + 3 * t_2 * (x p3 - x p2);
          dy = 3 * t1_2 * (y p1 - y p0) + 6 * t1 * t * (y p2 - y p1) + 3 * t_2 * (y p3 - y p2)
      in Vector2 dx dy)"

section \<open>Physics module\<close>

text \<open>
  \<^verbatim>\<open>class SpringPoint\<close>: the object's fields as a record; \<open>update\<close> and \<open>setTarget\<close>
  mutate the object, so the model returns the updated record.
\<close>

record SpringPoint =
  position :: Vector2
  velocity :: Vector2
  target :: Vector2
  fixed :: bool
  springConstant :: number
  damping :: number

text \<open>The constructor \<^verbatim>\<open>constructor(x, y, fixed = false)\<close>.\<close>

definition SpringPoint_new :: "number \<Rightarrow> number \<Rightarrow> bool \<Rightarrow> SpringPoint" where
  "SpringPoint_new px py fx =
     \<lparr> position = Vector2 px py,
       velocity = Vector2 0 0,
       target = Vector2 px py,
       fixed = fx,
       springConstant = 0.15,
       damping = 0.85 \<rparr>"

text \<open>\<^verbatim>\<open>update(deltaTime = 1)\<close>, lines 94 to 110.\<close>

definition SpringPoint_update :: "number \<Rightarrow> SpringPoint \<Rightarrow> SpringPoint" where
  "SpringPoint_update deltaTime this =
     (if fixed this then this
      else
        let displacement = Vector2_subtract (position this) (target this);
            springForce = Vector2_multiply displacement (- springConstant this);
            dampingForce = Vector2_multiply (velocity this) (- damping this);
            acceleration = Vector2_add springForce dampingForce;
            this1 = this\<lparr>velocity := Vector2_add (velocity this) (Vector2_multiply acceleration deltaTime)\<rparr>
        in this1\<lparr>position := Vector2_add (position this1) (Vector2_multiply (velocity this1) deltaTime)\<rparr>)"

text \<open>\<^verbatim>\<open>setTarget(x, y) { this.target = new Vector2(x, y); }\<close>\<close>

definition SpringPoint_setTarget :: "number \<Rightarrow> number \<Rightarrow> SpringPoint \<Rightarrow> SpringPoint" where
  "SpringPoint_setTarget tx ty this = this\<lparr>target := Vector2 tx ty\<rparr>"

text \<open>
  A finite sequence of method calls on one \<open>SpringPoint\<close>, in the order they are made.
  A call \<^verbatim>\<open>update()\<close> without an argument is \<open>Update 1\<close> (the default parameter).
\<close>

datatype Call = Update number | SetTarget number number

fun SpringPoint_call :: "SpringPoint \<Rightarrow> Call \<Rightarrow> SpringPoint" where
  "SpringPoint_call this (Update deltaTime) = SpringPoint_update deltaTime this"
| "SpringPoint_call this (SetTarget tx ty) = SpringPoint_setTarget tx ty this"

definition SpringPoint_calls :: "Call list \<Rightarrow> SpringPoint \<Rightarrow> SpringPoint" where
  "SpringPoint_calls cs this = foldl SpringPoint_call this cs"

section \<open>The component: state, input handlers and the update loop\<close>

text \<open>
  The React state \<open>mode\<close> holds one of the two strings \<^verbatim>\<open>'mouse'\<close> and \<^verbatim>\<open>'gyro'\<close>
  (\<^verbatim>\<open>useState('mouse')\<close>; \<^verbatim>\<open>setMode\<close> is only ever called with these two).
\<close>

datatype Mode = Mouse | Gyro

text \<open>
  The React state \<open>gyroPermission\<close> holds one of \<^verbatim>\<open>'unknown'\<close>, \<^verbatim>\<open>'needed'\<close>,
  \<^verbatim>\<open>'granted'\<close> and \<^verbatim>\<open>'denied'\<close>.
\<close>

datatype Permission = Unknown | Needed | Granted | Denied

text \<open>\<^verbatim>\<open>let gyroData = { beta: 0, gamma: 0, alpha: 0 };\<close>\<close>

record GyroData =
  beta :: number
  gamma :: number
  alpha :: number

text \<open>
  The state of the mounted component. The first six fields are React state (lines 5 to
  10), which survives a re-run of the effect. The next two describe the browser:
  \<open>deviceOrientationEvent\<close> says that \<^verbatim>\<open>window.DeviceOrientationEvent\<close> exists and
  \<open>requestPermission\<close> that \<^verbatim>\<open>DeviceOrientationEvent.requestPermission\<close> is a function.
  \<open>orientationListener\<close> says that \<open>handleOrientation\<close> is registered for the
  \<^verbatim>\<open>deviceorientation\<close> event. \<open>offsetWidth\<close> and \<open>offsetHeight\<close> are the layout size of
  the canvas element and \<open>width\<close> and \<open>height\<close> its drawing size (\<^verbatim>\<open>canvas.width\<close>,
  \<^verbatim>\<open>canvas.height\<close>); the remaining fields are the variables declared inside the effect
  (\<^verbatim>\<open>useEffect(() => { ... }, [mode, showTangents, showControls])\<close>), which every run of
  the effect creates afresh.
\<close>

record Simulation =
  mode :: Mode
  showTangents :: bool
  showControls :: bool
  gyroSupported :: bool
  gyroPermission :: Permission
  fps :: nat
  deviceOrientationEvent :: bool
  requestPermission :: bool
  orientationListener :: bool
  offsetWidth :: number
  offsetHeight :: number
  width :: number
  height :: number
  points :: "SpringPoint list"
  mousePos :: Vector2
  gyroData :: GyroData
  gyroActive :: bool
  lastTime :: number
  frameCount :: nat
  fpsTime :: number

text \<open>\<^verbatim>\<open>const resize = () => { canvas.width = canvas.offsetWidth; canvas.height = canvas.offsetHeight; }\<close>\<close>

definition resize :: "Simulation \<Rightarrow> Simulation" where
  "resize s = s\<lparr>width := offsetWidth s, height := offsetHeight s\<rparr>"

text \<open>
  \<^verbatim>\<open>handleMouseMove(e)\<close>: the arguments are \<^verbatim>\<open>e.clientX\<close>, \<^verbatim>\<open>e.clientY\<close> and the
  \<^verbatim>\<open>left\<close> and \<^verbatim>\<open>top\<close> of \<^verbatim>\<open>canvas.getBoundingClientRect()\<close>.
\<close>

definition handleMouseMove :: "number \<Rightarrow> number \<Rightarrow> number \<Rightarrow> number \<Rightarrow> Simulation \<Rightarrow> Simulation" where
  "handleMouseMove clientX clientY rectLeft rectTop s =
     s\<lparr>mousePos := Vector2 (clientX - rectLeft) (clientY - rectTop)\<rparr>"

text \<open>
  \<^verbatim>\<open>handleOrientation(e)\<close>: a field of the event may be \<^verbatim>\<open>null\<close> (\<open>None\<close>);
  \<^verbatim>\<open>e.beta || 0\<close> is then \<open>0\<close>, and a field that is \<open>0\<close> stays \<open>0\<close>.
\<close>

definition orZero :: "number option \<Rightarrow> number" where
  "orZero v = (case v of None \<Rightarrow> 0 | Some r \<Rightarrow> r)"

definition handleOrientation :: "number option \<Rightarrow> number option \<Rightarrow> number option \<Rightarrow> Simulation \<Rightarrow> Simulation" where
  "handleOrientation ebeta egamma ealpha s =
     s\<lparr>gyroData := \<lparr>beta = orZero ebeta, gamma = orZero egamma, alpha = orZero ealpha\<rparr>,
       gyroActive := True\<rparr>"

text \<open>
  The target assignment of \<^verbatim>\<open>updatePhysics\<close> (lines 284 to 300): the array \<open>points\<close>
  after the two \<^verbatim>\<open>setTarget\<close> calls of the branch taken, or unchanged when neither
  branch is taken. The array always holds four points (see \<open>effect\<close> below), so the
  indices 1 and 2 are in range.
\<close>

definition assignTargets :: "Simulation \<Rightarrow> SpringPoint list" where
  "assignTargets s =
     (if mode s = Mouse then
        let centerX = width s / 2;
            centerY = height s / 2;
            offsetX = (x (mousePos s) - centerX) * 0.3;
            offsetY = (y (mousePos s) - centerY) * 0.3;
            ps1 = (points s)[1 := SpringPoint_setTarget (width s * 0.4 + offsetX) (height s * 0.3 + offsetY) (points s ! 1)]
        in ps1[2 := SpringPoint_setTarget (width s * 0.6 - offsetX) (height s * 0.7 - offsetY) (ps1 ! 2)]
      else if mode s = Gyro \<and> gyroActive s then
        let offsetX = (gamma (gyroData s) / 90) * 150;
            offsetY = ((beta (gyroData s) - 90) / 90) * 150;
            ps1 = (points s)[1 := SpringPoint_setTarget (width s * 0.4 + offsetX) (height s * 0.3 + offsetY) (points s ! 1)]
        in ps1[2 := SpringPoint_setTarget (width s * 0.6 - offsetX) (height s * 0.7 - offsetY) (ps1 ! 2)]
      else points s)"

text \<open>
  \<^verbatim>\<open>updatePhysics\<close> (lines 271 to 304); \<open>currentTime\<close> is the value read from
  \<^verbatim>\<open>performance.now()\<close>.
\<close>

definition updatePhysics :: "number \<Rightarrow> Simulation \<Rightarrow> Simulation" where
  "updatePhysics currentTime s =
     (let deltaTime = min ((currentTime - lastTime s) / 16.67) 2;
          s1 = s\<lparr>lastTime := currentTime\<rparr>;
          s2 = s1\<lparr>frameCount := frameCount s1 + 1\<rparr>;
          s3 = (if currentTime - fpsTime s2 \<ge> 1000
                then s2\<lparr>fps := frameCount s2, frameCount := 0, fpsTime := currentTime\<rparr>
                else s2);
          s4 = s3\<lparr>points := assignTargets s3\<rparr>
      in s4\<lparr>points := map (SpringPoint_update deltaTime) (points s4)\<rparr>)"

text \<open>
  The body of the effect (lines 12 to 343). It sizes the canvas, constructs the four
  control points from the canvas size, resets the input variables, checks for
  orientation support (lines 151 to 160: \<open>handleOrientation\<close> is registered only where
  \<^verbatim>\<open>DeviceOrientationEvent\<close> exists and has no \<^verbatim>\<open>requestPermission\<close>), resets the
  counters, and calls \<^verbatim>\<open>animate()\<close> once, whose first action is \<^verbatim>\<open>updatePhysics()\<close>
  (\<^verbatim>\<open>render\<close> changes no state). The three numbers are the values
  \<^verbatim>\<open>performance.now()\<close> returns for \<open>lastTime\<close>, for \<open>fpsTime\<close> and inside the first
  \<^verbatim>\<open>updatePhysics\<close>.
\<close>

definition effect :: "number \<Rightarrow> number \<Rightarrow> number \<Rightarrow> Simulation \<Rightarrow> Simulation" where
  "effect tLast tFps tFrame s =
     (let s1 = resize s;
          cw = width s1;
          ch = height s1;
          s2 = s1\<lparr>points :=
                    [SpringPoint_new (cw * 0.2) (ch * 0.5) True,
                     SpringPoint_new (cw * 0.4) (ch * 0.3) False,
                     SpringPoint_new (cw * 0.6) (ch * 0.7) False,
                     SpringPoint_new (cw * 0.8) (ch * 0.5) True],
                  mousePos := Vector2 (cw / 2) (ch / 2),
                  gyroData := \<lparr>beta = 0, gamma = 0, alpha = 0\<rparr>,
                  gyroActive := False\<rparr>;
          s3 = (if deviceOrientationEvent s2 then
                  (if requestPermission s2
                   then s2\<lparr>gyroSupported := True, gyroPermission := Needed\<rparr>
                   else s2\<lparr>gyroSupported := True, orientationListener := True\<rparr>)
                else s2);
          s4 = s3\<lparr>lastTime := tLast, frameCount := 0, fpsTime := tFps\<rparr>
      in updatePhysics tFrame s4)"

text \<open>
  The cleanup function the effect returns (lines 346 to 351): it removes the listeners
  and cancels the pending animation frame. Of these, the state records the
  orientation listener.
\<close>

definition cleanup :: "Simulation \<Rightarrow> Simulation" where
  "cleanup s = s\<lparr>orientationListener := False\<rparr>"

text \<open>
  Mounting the component in a browser described by \<open>hasEvent\<close> and \<open>hasRequest\<close>, on a
  canvas of layout size \<open>w\<close> by \<open>h\<close>: the React state has its initial values
  (\<^verbatim>\<open>useState('mouse')\<close>, \<^verbatim>\<open>useState(true)\<close>, \<^verbatim>\<open>useState(true)\<close>, \<^verbatim>\<open>useState(false)\<close>,
  \<^verbatim>\<open>useState('unknown')\<close>, \<^verbatim>\<open>useState(60)\<close>), no listener is registered, and the effect
  runs. The fields the effect assigns are given placeholder values first; the effect
  overwrites each of them.
\<close>

definition mount :: "bool \<Rightarrow> bool \<Rightarrow> number \<Rightarrow> number \<Rightarrow> number \<Rightarrow> number \<Rightarrow> number \<Rightarrow> Simulation" where
  "mount hasEvent hasRequest w h tLast tFps tFrame =
     effect tLast tFps tFrame
       \<lparr> mode = Mouse, showTangents = True, showControls = True,
         gyroSupported = False, gyroPermission = Unknown, fps = 60,
         deviceOrientationEvent = hasEvent, requestPermission = hasRequest,
         orientationListener = False,
         offsetWidth = w, offsetHeight = h, width = w, height = h,
         points = [], mousePos = Vector2 0 0,
         gyroData = \<lparr>beta = 0, gamma = 0, alpha = 0\<rparr>, gyroActive = False,
         lastTime = 0, frameCount = 0, fpsTime = 0 \<rparr>"

text \<open>
  \<^verbatim>\<open>setMode(m)\<close>: \<open>mode\<close> is a dependency of the effect, so a call that changes it makes
  React clean the running effect up and run the effect body again with the new mode; a
  call with the current mode changes nothing.
\<close>

definition setMode :: "Mode \<Rightarrow> number \<Rightarrow> number \<Rightarrow> number \<Rightarrow> Simulation \<Rightarrow> Simulation" where
  "setMode m tLast tFps tFrame s =
     (if m = mode s then s else effect tLast tFps tFrame (cleanup (s\<lparr>mode := m\<rparr>)))"

text \<open>
  What the browser does while one run of the effect is active: an animation frame
  (\<^verbatim>\<open>animate\<close>, with the clock value \<^verbatim>\<open>updatePhysics\<close> reads), a mouse move over the
  canvas, a device-orientation sample, and a window resize to a new layout size of the
  canvas. An orientation sample reaches \<open>handleOrientation\<close> only while that listener
  is registered; otherwise nothing happens.
\<close>

datatype Callback =
    Frame number
  | MouseMove number number number number
  | Orientation "number option" "number option" "number option"
  | Resize number number

fun callback :: "Simulation \<Rightarrow> Callback \<Rightarrow> Simulation" where
  "callback s (Frame currentTime) = updatePhysics currentTime s"
| "callback s (MouseMove clientX clientY rectLeft rectTop) = handleMouseMove clientX clientY rectLeft rectTop s"
| "callback s (Orientation ebeta egamma ealpha) =
     (if orientationListener s then handleOrientation ebeta egamma ealpha s else s)"
| "callback s (Resize w h) = resize (s\<lparr>offsetWidth := w, offsetHeight := h\<rparr>)"

definition callbacks :: "Callback list \<Rightarrow> Simulation \<Rightarrow> Simulation" where
  "callbacks cs s = foldl callback s cs"

fun isOrientation :: "Callback \<Rightarrow> bool" where
  "isOrientation (Orientation ebeta egamma ealpha) = True"
| "isOrientation c = False"

section \<open>Predicates used in the proofs\<close>

text \<open>Gyro mode before the first orientation sample of this run of the effect.\<close>

definition gyroIdle :: "Simulation \<Rightarrow> bool" where
  "gyroIdle s = (mode s = Gyro \<and> \<not> gyroActive s)"

text \<open>No orientation listener is registered and no sample has been received.\<close>

definition unheard :: "Simulation \<Rightarrow> bool" where
  "unheard s = (requestPermission s \<and> \<not> orientationListener s \<and> \<not> gyroActive s)"

section \<open>Vector2 and the Bezier curve\<close>

lemmas model_defs =
  callbacks_def mount_def effect_def cleanup_def resize_def updatePhysics_def assignTargets_def
  setMode_def
  Let_def SpringPoint_new_def SpringPoint_setTarget_def SpringPoint_update_def
  handleMouseMove_def handleOrientation_def orZero_def
  Vector2_add_def Vector2_subtract_def Vector2_multiply_def

lemma Vector2_length_Some:
  "Vector2_length v = Some (sqrt (x v * x v + y v * y v))"
  by (simp add: Vector2_length_def js_sqrt_def not_less)

lemma Vector2_length_3_4: "Vector2_length (Vector2 3 4) = Some 5"
proof -
  have "sqrt (3 * 3 + 4 * 4) = sqrt (5\<^sup>2)"
    by simp
  then have "sqrt (3 * 3 + 4 * 4) = (5 :: real)"
    by (simp del: real_sqrt_four)
  then show ?thesis
    by (simp add: Vector2_length_Some)
qed

text \<open>
  Claim C7. No operation of \<open>Vector2\<close> has a failure mode. \<open>add\<close>, \<open>subtract\<close> and
  \<open>multiply\<close> return, for all arguments, the vector of the componentwise sums,
  differences and products. \<open>length\<close> always returns a number: the square root is
  taken of a number that is never negative. \<open>normalize\<close> always returns a vector: for a
  vector of length \<open>0\<close> it returns \<open>(0,0)\<close> and divides nothing, and for a vector of any
  other length it returns the components divided by that length, which is not zero.
\<close>

theorem Vector2_normalize_guarded:
  "Vector2_add a b = Vector2 (x a + x b) (y a + y b) \<and>
   Vector2_subtract a b = Vector2 (x a - x b) (y a - y b) \<and>
   Vector2_multiply a k = Vector2 (x a * k) (y a * k) \<and>
   Vector2_length v = Some (sqrt (x v * x v + y v * y v)) \<and>
   Vector2_normalize v \<noteq> None \<and>
   (Vector2_length v = Some 0 \<longrightarrow> Vector2_normalize v = Some (Vector2 0 0)) \<and>
   (Vector2_length v \<noteq> Some 0 \<longrightarrow>
      js_divide (x v) (sqrt (x v * x v + y v * y v)) = Some (x v / sqrt (x v * x v + y v * y v)) \<and>
      js_divide (y v) (sqrt (x v * x v + y v * y v)) = Some (y v / sqrt (x v * x v + y v * y v)) \<and>
      Vector2_normalize v =
        Some (Vector2 (x v / sqrt (x v * x v + y v * y v)) (y v / sqrt (x v * x v + y v * y v))))"
  by (simp add: Vector2_add_def Vector2_subtract_def Vector2_multiply_def Vector2_length_Some
      Vector2_normalize_def js_divide_def)

text \<open>
  The zero vector has length \<open>0\<close> and is normalized to \<open>(0,0)\<close>; the vector \<open>(3,4)\<close> has
  length \<open>5\<close> and is normalized to \<open>(3/5, 4/5)\<close>.
\<close>

theorem Vector2_normalize_guarded_witness:
  "Vector2_length (Vector2 0 0) = Some 0 \<and>
   Vector2_normalize (Vector2 0 0) = Some (Vector2 0 0) \<and>
   Vector2_length (Vector2 3 4) \<noteq> Some 0 \<and>
   Vector2_normalize (Vector2 3 4) = Some (Vector2 (3 / 5) (4 / 5))"
proof -
  have r: "sqrt (3 * 3 + 4 * 4) = (5 :: real)"
    using Vector2_length_3_4 by (simp add: Vector2_length_Some)
  show ?thesis
    using Vector2_normalize_guarded [of "Vector2 0 0" "Vector2 0 0" 0 "Vector2 0 0"]
      Vector2_normalize_guarded [of "Vector2 0 0" "Vector2 0 0" 0 "Vector2 3 4"]
    by (simp add: r)
qed

text \<open>
  Claim C2. For every choice of the four control points, the curve evaluated at \<open>t = 0\<close>
  is \<open>p0\<close> and evaluated at \<open>t = 1\<close> is \<open>p3\<close>.
\<close>

theorem bezierPoint_endpoints:
  "bezierPoint 0 p0 p1 p2 p3 = p0 \<and> bezierPoint 1 p0 p1 p2 p3 = p3"
  by (cases p0, cases p3) (simp add: bezierPoint_def)

text \<open>
  Claim C3. For every \<open>t\<close> and every choice of control points, each component of
  \<open>bezierTangent\<close> at \<open>t\<close> is the derivative with respect to the parameter of the same
  component of \<open>bezierPoint\<close>, and \<open>bezierTangent\<close> is the sum of the consecutive
  differences \<open>p1 - p0\<close>, \<open>p2 - p1\<close>, \<open>p3 - p2\<close> scaled by the weights \<open>3(1-t)\<^sup>2\<close>,
  \<open>6(1-t)t\<close> and \<open>3t\<^sup>2\<close>.
\<close>

theorem bezierTangent_is_derivative:
  "((\<lambda>s. x (bezierPoint s p0 p1 p2 p3)) has_real_derivative x (bezierTangent t p0 p1 p2 p3)) (at t) \<and>
   ((\<lambda>s. y (bezierPoint s p0 p1 p2 p3)) has_real_derivative y (bezierTangent t p0 p1 p2 p3)) (at t) \<and>
   bezierTangent t p0 p1 p2 p3 =
     Vector2_add
       (Vector2_add (Vector2_multiply (Vector2_subtract p1 p0) (3 * (1 - t)\<^sup>2))
                    (Vector2_multiply (Vector2_subtract p2 p1) (6 * (1 - t) * t)))
       (Vector2_multiply (Vector2_subtract p3 p2) (3 * t\<^sup>2))"
proof (intro conjI)
  show "((\<lambda>s. x (bezierPoint s p0 p1 p2 p3)) has_real_derivative x (bezierTangent t p0 p1 p2 p3)) (at t)"
    unfolding bezierPoint_def bezierTangent_def Let_def Vector2.sel
    by (auto intro!: derivative_eq_intros simp: algebra_simps)
  show "((\<lambda>s. y (bezierPoint s p0 p1 p2 p3)) has_real_derivative y (bezierTangent t p0 p1 p2 p3)) (at t)"
    unfolding bezierPoint_def bezierTangent_def Let_def Vector2.sel
    by (auto intro!: derivative_eq_intros simp: algebra_simps)
  show "bezierTangent t p0 p1 p2 p3 =
     Vector2_add
       (Vector2_add (Vector2_multiply (Vector2_subtract p1 p0) (3 * (1 - t)\<^sup>2))
                    (Vector2_multiply (Vector2_subtract p2 p1) (6 * (1 - t) * t)))
       (Vector2_multiply (Vector2_subtract p3 p2) (3 * t\<^sup>2))"
    by (simp add: bezierTangent_def Vector2_add_def Vector2_multiply_def Vector2_subtract_def
        power2_eq_square algebra_simps)
qed

text \<open>
  Claim C8, as the specification states it, fails in its second half: for
  \<open>p0 = (0,0)\<close>, \<open>p1 = (0,100)\<close>, \<open>p2 = (100,100)\<close>, \<open>p3 = (100,0)\<close> the curve at
  \<open>t = 0.5\<close> is not \<open>(50,50)\<close>.
\<close>

theorem bezierPoint_midpoint_is_not_50_50:
  "bezierPoint 0.5 (Vector2 0 0) (Vector2 0 100) (Vector2 100 100) (Vector2 100 0) \<noteq> Vector2 50 50"
  by (simp add: bezierPoint_def)

text \<open>
  Claim C8, amended. With all four control points at \<open>(0,0)\<close> the curve is \<open>(0,0)\<close> for
  every \<open>t\<close>; with \<open>p0 = (0,0)\<close>, \<open>p1 = (0,100)\<close>, \<open>p2 = (100,100)\<close>, \<open>p3 = (100,0)\<close> the
  curve at \<open>t = 0.5\<close> is exactly \<open>(50,75)\<close>.
\<close>

theorem bezierPoint_scenarios:
  "bezierPoint t (Vector2 0 0) (Vector2 0 0) (Vector2 0 0) (Vector2 0 0) = Vector2 0 0 \<and>
   bezierPoint 0.5 (Vector2 0 0) (Vector2 0 100) (Vector2 100 100) (Vector2 100 0) = Vector2 50 75"
  by (simp add: bezierPoint_def)

section \<open>SpringPoint: one step, fixed points\<close>

lemma SpringPoint_update_fixed [simp]: "fixed (SpringPoint_update deltaTime p) = fixed p"
  by (simp add: SpringPoint_update_def Let_def)

lemma SpringPoint_update_target [simp]: "target (SpringPoint_update deltaTime p) = target p"
  by (simp add: SpringPoint_update_def Let_def)

lemma SpringPoint_update_constants [simp]:
  "springConstant (SpringPoint_update deltaTime p) = springConstant p"
  "damping (SpringPoint_update deltaTime p) = damping p"
  by (simp_all add: SpringPoint_update_def Let_def)

text \<open>
  Claim C1. For every \<open>deltaTime\<close> and every non-fixed \<open>SpringPoint\<close>, one call of
  \<open>update\<close> computes \<open>displacement = position - target\<close>,
  \<open>springForce = - springConstant * displacement\<close>, \<open>dampingForce = - damping * velocity\<close>,
  \<open>acceleration = springForce + dampingForce\<close>, sets the velocity to
  \<open>velocity + acceleration * deltaTime\<close> and the position to the old position plus the
  new velocity times \<open>deltaTime\<close> (semi-implicit Euler). The target, the flag and the two
  constants are unchanged.
\<close>

theorem SpringPoint_update_semi_implicit_euler:
  "\<not> fixed p \<Longrightarrow>
   (let displacement = Vector2 (x (position p) - x (target p)) (y (position p) - y (target p));
        springForce = Vector2 (- springConstant p * x displacement) (- springConstant p * y displacement);
        dampingForce = Vector2 (- damping p * x (velocity p)) (- damping p * y (velocity p));
        acceleration = Vector2 (x springForce + x dampingForce) (y springForce + y dampingForce);
        newVelocity = Vector2 (x (velocity p) + x acceleration * deltaTime)
                              (y (velocity p) + y acceleration * deltaTime)
    in velocity (SpringPoint_update deltaTime p) = newVelocity \<and>
       position (SpringPoint_update deltaTime p) =
         Vector2 (x (position p) + x newVelocity * deltaTime) (y (position p) + y newVelocity * deltaTime) \<and>
       target (SpringPoint_update deltaTime p) = target p \<and>
       fixed (SpringPoint_update deltaTime p) = fixed p \<and>
       springConstant (SpringPoint_update deltaTime p) = springConstant p \<and>
       damping (SpringPoint_update deltaTime p) = damping p)"
  by (simp add: SpringPoint_update_def Let_def Vector2_add_def Vector2_subtract_def Vector2_multiply_def)

text \<open>
  A point built at \<open>(0,0)\<close> with its target moved to \<open>(10,0)\<close>, stepped with
  \<open>deltaTime = 2\<close>: the velocity becomes \<open>(3,0)\<close> and the position \<open>(6,0)\<close>, the new
  velocity times \<open>2\<close> (the old velocity \<open>(0,0)\<close> would have left it at \<open>(0,0)\<close>).
\<close>

theorem SpringPoint_update_semi_implicit_euler_witness:
  "\<not> fixed (SpringPoint_setTarget 10 0 (SpringPoint_new 0 0 False)) \<and>
   velocity (SpringPoint_update 2 (SpringPoint_setTarget 10 0 (SpringPoint_new 0 0 False))) = Vector2 3 0 \<and>
   position (SpringPoint_update 2 (SpringPoint_setTarget 10 0 (SpringPoint_new 0 0 False))) = Vector2 6 0"
  using SpringPoint_update_semi_implicit_euler [of "SpringPoint_setTarget 10 0 (SpringPoint_new 0 0 False)" 2]
  by (simp add: SpringPoint_setTarget_def SpringPoint_new_def Let_def)

lemma SpringPoint_call_fixed:
  "fixed p \<Longrightarrow>
   fixed (SpringPoint_call p c) \<and> position (SpringPoint_call p c) = position p \<and>
   velocity (SpringPoint_call p c) = velocity p"
  by (cases c) (simp_all add: SpringPoint_update_def SpringPoint_setTarget_def)

lemma SpringPoint_calls_fixed:
  "fixed p \<Longrightarrow>
   fixed (SpringPoint_calls cs p) \<and> position (SpringPoint_calls cs p) = position p \<and>
   velocity (SpringPoint_calls cs p) = velocity p"
proof (induction cs arbitrary: p)
  case Nil
  then show ?case by (simp add: SpringPoint_calls_def)
next
  case (Cons c cs)
  from Cons.prems have f: "fixed (SpringPoint_call p c)"
    and e: "position (SpringPoint_call p c) = position p" "velocity (SpringPoint_call p c) = velocity p"
    using SpringPoint_call_fixed [of p c] by simp_all
  from Cons.IH [OF f] e show ?case by (simp add: SpringPoint_calls_def)
qed

text \<open>
  Claim C4. A \<open>SpringPoint\<close> constructed with \<open>fixed = true\<close> has, after any finite
  sequence of \<open>update\<close> and \<open>setTarget\<close> calls with any arguments, the position and the
  velocity it was constructed with: \<open>(px,py)\<close> and \<open>(0,0)\<close>.
\<close>

theorem fixed_point_invariance:
  "position (SpringPoint_calls cs (SpringPoint_new px py True)) = position (SpringPoint_new px py True) \<and>
   velocity (SpringPoint_calls cs (SpringPoint_new px py True)) = velocity (SpringPoint_new px py True) \<and>
   position (SpringPoint_new px py True) = Vector2 px py \<and>
   velocity (SpringPoint_new px py True) = Vector2 0 0"
  using SpringPoint_calls_fixed [of "SpringPoint_new px py True" cs]
  by (simp add: SpringPoint_new_def)

theorem fixed_point_invariance_witness:
  "position (SpringPoint_calls [Update 1, SetTarget 5 7, Update 2, SetTarget 0 0, Update 10]
      (SpringPoint_new 3 4 True)) = Vector2 3 4 \<and>
   velocity (SpringPoint_calls [Update 1, SetTarget 5 7, Update 2, SetTarget 0 0, Update 10]
      (SpringPoint_new 3 4 True)) = Vector2 0 0"
  using fixed_point_invariance [of "[Update 1, SetTarget 5 7, Update 2, SetTarget 0 0, Update 10]" 3 4]
  by simp

section \<open>The update loop\<close>

lemma updatePhysics_points:
  "points (updatePhysics currentTime s) =
     map (SpringPoint_update (min ((currentTime - lastTime s) / 16.67) 2)) (assignTargets s)"
  by (simp add: updatePhysics_def Let_def assignTargets_def)

lemma updatePhysics_lastTime: "lastTime (updatePhysics currentTime s) = currentTime"
  by (simp add: updatePhysics_def Let_def)

lemma updatePhysics_frame [simp]:
  "mode (updatePhysics currentTime s) = mode s"
  "gyroActive (updatePhysics currentTime s) = gyroActive s"
  "width (updatePhysics currentTime s) = width s"
  "height (updatePhysics currentTime s) = height s"
  "offsetWidth (updatePhysics currentTime s) = offsetWidth s"
  "offsetHeight (updatePhysics currentTime s) = offsetHeight s"
  by (simp_all add: updatePhysics_def Let_def)

lemma length_assignTargets [simp]: "length (assignTargets s) = length (points s)"
  by (simp add: assignTargets_def Let_def)

lemma length_points_updatePhysics [simp]:
  "length (points (updatePhysics currentTime s)) = length (points s)"
  by (simp add: updatePhysics_points)

lemma length_points_effect: "length (points (effect tLast tFps tFrame s)) = 4"
  by (simp add: effect_def Let_def)

lemma length_points_callback: "length (points (callback s c)) = length (points s)"
  by (cases c) (simp_all add: handleMouseMove_def handleOrientation_def resize_def)

lemma length_points_callbacks: "length (points (callbacks cs s)) = length (points s)"
proof (induction cs arbitrary: s)
  case Nil
  show ?case by (simp add: callbacks_def)
next
  case (Cons c cs)
  have "callbacks (c # cs) s = callbacks cs (callback s c)"
    by (simp add: callbacks_def)
  with Cons.IH [of "callback s c"] show ?case
    by (simp add: length_points_callback)
qed

text \<open>
  The rig always holds four points: the effect builds four, and no handler and no
  frame adds or removes one. So the indices 1 and 2 used by \<open>assignTargets\<close> are in range
  in every state the component reaches.
\<close>

lemma rig_has_four_points:
  "length (points (callbacks cs (mount hasEvent hasRequest w h tLast tFps tFrame))) = 4"
  "length (points s) = 4 \<Longrightarrow> length (points (callbacks cs (setMode m tLast tFps tFrame s))) = 4"
  by (simp_all add: length_points_callbacks mount_def setMode_def length_points_effect)

text \<open>
  Claim C5. For every pair of tick timestamps \<open>t1\<close> and \<open>t2\<close>, the second tick passes to
  \<open>SpringPoint.update\<close>, for each of the points, the elapsed time \<open>t2 - t1\<close> divided by
  \<open>16.67\<close> and capped above at \<open>2\<close>; when the elapsed time is ten nominal frames
  (\<open>10 * 16.67\<close>) the value passed is \<open>2\<close>.
\<close>

theorem updatePhysics_deltaTime_clamped:
  "points (updatePhysics t2 (updatePhysics t1 s)) =
     map (SpringPoint_update (min ((t2 - t1) / 16.67) 2)) (assignTargets (updatePhysics t1 s)) \<and>
   points (updatePhysics (t1 + 10 * 16.67) (updatePhysics t1 s)) =
     map (SpringPoint_update 2) (assignTargets (updatePhysics t1 s)) \<and>
   min ((t1 + 10 * 16.67 - t1) / 16.67) 2 = (2 :: number)"
  by (simp add: updatePhysics_points updatePhysics_lastTime)

section \<open>Switching the mode\<close>

lemma updatePhysics_gyroIdle:
  "mode s = Gyro \<Longrightarrow> \<not> gyroActive s \<Longrightarrow>
   map target (points (updatePhysics currentTime s)) = map target (points s)"
  by (simp add: updatePhysics_points assignTargets_def comp_def)

lemma callback_gyroIdle:
  assumes "gyroIdle s" "\<not> isOrientation c"
  shows "gyroIdle (callback s c) \<and> map target (points (callback s c)) = map target (points s)"
  using assms
  by (cases c) (simp_all add: gyroIdle_def updatePhysics_gyroIdle handleMouseMove_def resize_def)

lemma callbacks_gyroIdle:
  assumes "gyroIdle s" "list_all (\<lambda>c. \<not> isOrientation c) cs"
  shows "map target (points (callbacks cs s)) = map target (points s)"
  using assms
proof (induction cs arbitrary: s)
  case Nil
  then show ?case by (simp add: callbacks_def)
next
  case (Cons c cs)
  from Cons.prems have 1: "gyroIdle (callback s c)"
    and 2: "map target (points (callback s c)) = map target (points s)"
    using callback_gyroIdle [of s c] by simp_all
  from Cons.prems have 3: "list_all (\<lambda>c. \<not> isOrientation c) cs"
    by simp
  have "callbacks (c # cs) s = callbacks cs (callback s c)"
    by (simp add: callbacks_def)
  with Cons.IH [OF 1 3] 2 show ?case by simp
qed

lemma effect_gyro:
  assumes "mode s = Gyro"
  shows "gyroIdle (effect tLast tFps tFrame s)"
    and "map target (points (effect tLast tFps tFrame s)) =
      [Vector2 (offsetWidth s * 0.2) (offsetHeight s * 0.5),
       Vector2 (offsetWidth s * 0.4) (offsetHeight s * 0.3),
       Vector2 (offsetWidth s * 0.6) (offsetHeight s * 0.7),
       Vector2 (offsetWidth s * 0.8) (offsetHeight s * 0.5)]"
  using assms
  by (simp_all add: effect_def Let_def gyroIdle_def resize_def updatePhysics_gyroIdle
      SpringPoint_new_def)

text \<open>
  In a browser whose \<^verbatim>\<open>DeviceOrientationEvent\<close> has \<^verbatim>\<open>requestPermission\<close>, the effect
  never registers \<open>handleOrientation\<close>, so \<open>gyroActive\<close> stays false whatever the browser
  sends and however often the mode is switched.
\<close>

lemma updatePhysics_unheard [simp]: "unheard (updatePhysics currentTime s) = unheard s"
  by (simp add: unheard_def updatePhysics_def Let_def)

lemma effect_unheard:
  "requestPermission s \<Longrightarrow> \<not> orientationListener s \<Longrightarrow> unheard (effect tLast tFps tFrame s)"
  by (simp add: effect_def Let_def) (simp add: unheard_def resize_def)

lemma callback_unheard: "unheard s \<Longrightarrow> unheard (callback s c)"
proof (cases c)
  case (Frame currentTime)
  then show "unheard s \<Longrightarrow> unheard (callback s c)"
    by simp
qed (simp_all add: unheard_def handleMouseMove_def resize_def)

lemma callbacks_unheard: "unheard s \<Longrightarrow> unheard (callbacks cs s)"
proof (induction cs arbitrary: s)
  case Nil
  then show ?case by (simp add: callbacks_def)
next
  case (Cons c cs)
  have "callbacks (c # cs) s = callbacks cs (callback s c)"
    by (simp add: callbacks_def)
  with Cons.IH [OF callback_unheard [OF Cons.prems]] show ?case
    by simp
qed

lemma setMode_unheard:
  assumes "unheard s"
  shows "unheard (setMode m tLast tFps tFrame s)"
proof (cases "m = mode s")
  case True
  with assms show ?thesis by (simp add: setMode_def)
next
  case False
  have "unheard (effect tLast tFps tFrame (cleanup (s\<lparr>mode := m\<rparr>)))"
    using assms by (intro effect_unheard) (simp_all add: cleanup_def unheard_def)
  with False show ?thesis by (simp add: setMode_def)
qed

lemma mount_unheard: "unheard (mount hasEvent True w h tLast tFps tFrame)"
  by (simp add: mount_def effect_unheard)

text \<open>
  Claim C6, as the specification states it, fails: the switch itself moves the targets.
  In a browser whose \<^verbatim>\<open>DeviceOrientationEvent\<close> has \<^verbatim>\<open>requestPermission\<close> (where the
  component offers gyro mode), on a 1000 by 1000 canvas in mouse mode, with the mouse
  moved to \<open>(0,0)\<close>, a tick sets the targets of \<open>P1\<close> and \<open>P2\<close> to \<open>(250,150)\<close> and
  \<open>(750,850)\<close>. Switching to gyro mode re-runs the effect, which builds four new points:
  no orientation sample has arrived, and the targets of \<open>P1\<close> and \<open>P2\<close> are now
  \<open>(400,300)\<close> and \<open>(600,700)\<close>.
\<close>

theorem mode_switch_resets_targets:
  "mode (callbacks [MouseMove 0 0 0 0, Frame 16.67] (mount True True 1000 1000 0 0 0)) = Mouse \<and>
   target (points (callbacks [MouseMove 0 0 0 0, Frame 16.67] (mount True True 1000 1000 0 0 0)) ! 1)
     = Vector2 250 150 \<and>
   target (points (callbacks [MouseMove 0 0 0 0, Frame 16.67] (mount True True 1000 1000 0 0 0)) ! 2)
     = Vector2 750 850 \<and>
   \<not> gyroActive (setMode Gyro 20 20 20
        (callbacks [MouseMove 0 0 0 0, Frame 16.67] (mount True True 1000 1000 0 0 0))) \<and>
   target (points (setMode Gyro 20 20 20
        (callbacks [MouseMove 0 0 0 0, Frame 16.67] (mount True True 1000 1000 0 0 0))) ! 1)
     = Vector2 400 300 \<and>
   target (points (setMode Gyro 20 20 20
        (callbacks [MouseMove 0 0 0 0, Frame 16.67] (mount True True 1000 1000 0 0 0))) ! 2)
     = Vector2 600 700"
  by (simp add: model_defs)

text \<open>
  Claim C6, amended. Switching the mode from mouse to gyro re-runs the effect and so
  rebuilds the rig: the targets of \<open>P1\<close> and \<open>P2\<close> become the rest anchors
  \<open>(0.4 w, 0.3 h)\<close> and \<open>(0.6 w, 0.7 h)\<close> of the canvas size \<open>w\<close> by \<open>h\<close> at the switch.
  From then on, as long as no orientation sample arrives, no tick (and no mouse move or
  resize) reassigns them.
\<close>

theorem mode_switch_targets_at_anchors:
  assumes "mode s = Mouse" "list_all (\<lambda>c. \<not> isOrientation c) cs"
  shows "target (points (callbacks cs (setMode Gyro tLast tFps tFrame s)) ! 1)
           = Vector2 (offsetWidth s * 0.4) (offsetHeight s * 0.3) \<and>
         target (points (callbacks cs (setMode Gyro tLast tFps tFrame s)) ! 2)
           = Vector2 (offsetWidth s * 0.6) (offsetHeight s * 0.7)"
proof -
  let ?s1 = "setMode Gyro tLast tFps tFrame s"
  have e: "?s1 = effect tLast tFps tFrame (cleanup (s\<lparr>mode := Gyro\<rparr>))"
    using assms(1) by (simp add: setMode_def)
  have i: "gyroIdle ?s1"
    unfolding e by (rule effect_gyro) (simp add: cleanup_def)
  have t: "map target (points ?s1) =
      [Vector2 (offsetWidth s * 0.2) (offsetHeight s * 0.5),
       Vector2 (offsetWidth s * 0.4) (offsetHeight s * 0.3),
       Vector2 (offsetWidth s * 0.6) (offsetHeight s * 0.7),
       Vector2 (offsetWidth s * 0.8) (offsetHeight s * 0.5)]"
    unfolding e using effect_gyro(2) [of "cleanup (s\<lparr>mode := Gyro\<rparr>)" tLast tFps tFrame]
    by (simp add: cleanup_def)
  have m: "map target (points (callbacks cs ?s1)) = map target (points ?s1)"
    by (rule callbacks_gyroIdle [OF i assms(2)])
  have l: "length (points (callbacks cs ?s1)) = 4"
  proof -
    have "length (map target (points (callbacks cs ?s1))) = 4"
      unfolding m t by simp
    then show ?thesis by simp
  qed
  have "target (points (callbacks cs ?s1) ! 1) = map target (points (callbacks cs ?s1)) ! 1"
    using l by simp
  then have p1: "target (points (callbacks cs ?s1) ! 1)
      = Vector2 (offsetWidth s * 0.4) (offsetHeight s * 0.3)"
    unfolding m t by simp
  have "target (points (callbacks cs ?s1) ! 2) = map target (points (callbacks cs ?s1)) ! 2"
    using l by simp
  then have p2: "target (points (callbacks cs ?s1) ! 2)
      = Vector2 (offsetWidth s * 0.6) (offsetHeight s * 0.7)"
    unfolding m t by simp
  show ?thesis using p1 p2 by (rule conjI)
qed

text \<open>
  The state of the counterexample, switched to gyro mode and followed by three ticks, a
  mouse move and a resize: the targets of \<open>P1\<close> and \<open>P2\<close> are still the rest anchors of
  the 1000 by 1000 canvas.
\<close>

theorem mode_switch_targets_at_anchors_witness:
  "mode (callbacks [MouseMove 0 0 0 0, Frame 16.67] (mount True True 1000 1000 0 0 0)) = Mouse \<and>
   list_all (\<lambda>c. \<not> isOrientation c)
     [Frame 40, MouseMove 5 5 0 0, Frame 60, Resize 800 600, Frame 80] \<and>
   target (points (callbacks [Frame 40, MouseMove 5 5 0 0, Frame 60, Resize 800 600, Frame 80]
      (setMode Gyro 20 20 20
        (callbacks [MouseMove 0 0 0 0, Frame 16.67] (mount True True 1000 1000 0 0 0)))) ! 1)
     = Vector2 400 300 \<and>
   target (points (callbacks [Frame 40, MouseMove 5 5 0 0, Frame 60, Resize 800 600, Frame 80]
      (setMode Gyro 20 20 20
        (callbacks [MouseMove 0 0 0 0, Frame 16.67] (mount True True 1000 1000 0 0 0)))) ! 2)
     = Vector2 600 700"
  using mode_switch_targets_at_anchors
    [of "callbacks [MouseMove 0 0 0 0, Frame 16.67] (mount True True 1000 1000 0 0 0)"
        "[Frame 40, MouseMove 5 5 0 0, Frame 60, Resize 800 600, Frame 80]" 20 20 20]
  by (simp add: callbacks_def mount_def effect_def resize_def handleMouseMove_def)

end
